theory Spec2Isabelle
  imports Complex_Main
begin

section \<open>Crowd analytics engine (ml-module/analytics/crowd_analyzer.py)\<close>

text \<open>
  A shallow embedding of the class \<^verbatim>\<open>CrowdAnalyzer\<close>. Python floats are modelled as
  exact real numbers: the rounding error of IEEE double arithmetic, NaN and the infinities
  are not modelled, except in \<open>classify_risk_fl\<close>, where the rounding of each operation is
  a parameter. Python integers are \<open>int\<close>; lengths and counts are \<open>nat\<close>.
  Exceptions are values of \<open>py_error\<close>, returned as \<open>Inl\<close>.
  The mutable attribute \<^verbatim>\<open>self.previous_positions\<close> is threaded through explicitly: a
  method that assigns it returns the updated analyzer next to its result.
\<close>

subsection \<open>Configuration constants (ml-module/config.py)\<close>

definition DENSITY_GRID_SIZE :: int where
  "DENSITY_GRID_SIZE = 50"

definition HIGH_DENSITY_THRESHOLD :: nat where
  "HIGH_DENSITY_THRESHOLD = 5"

definition ANOMALY_MOVEMENT_THRESHOLD :: real where
  "ANOMALY_MOVEMENT_THRESHOLD = 50"

definition CLUSTERING_EPS :: real where
  "CLUSTERING_EPS = 100"

definition MIN_CLUSTER_SIZE :: nat where
  "MIN_CLUSTER_SIZE = 10"

subsection \<open>Data model\<close>

datatype py_error = IndexError | ValueError | ZeroDivisionError

datatype RiskLevel = LOW | MEDIUM | HIGH | CRITICAL

datatype AnomalyType = SUDDEN_MOVEMENT | HIGH_DENSITY | CLUSTERING | RUSH_BEHAVIOR | NORMAL

type_synonym point = "real \<times> real"

type_synonym box = "int \<times> int \<times> int \<times> int"

text \<open>A detection is a dictionary; the analyzer reads its key \<^verbatim>\<open>"center"\<close> only.\<close>

record Detection =
  det_center :: point

text \<open>The dictionaries built by \<^verbatim>\<open>detect_high_density_zones\<close> and \<^verbatim>\<open>detect_clusters\<close>.\<close>

record DensityZone =
  zone_grid_position :: "nat \<times> nat"
  zone_bbox :: box
  zone_person_count :: nat
  zone_density_level :: string

record Cluster =
  cluster_id :: int
  cluster_size :: nat
  cluster_center :: point
  cluster_bbox :: box
  cluster_area :: int

record CrowdMetrics =
  cm_total_count :: nat
  cm_density_score :: real
  cm_risk_level :: RiskLevel
  cm_risk_score :: real
  cm_anomaly_type :: AnomalyType
  cm_high_density_zones :: "DensityZone list"
  cm_clusters :: "Cluster list"
  cm_avg_velocity :: real
  cm_frame_area :: int
  cm_timestamp :: string

text \<open>The attributes of a \<^verbatim>\<open>CrowdAnalyzer\<close> instance; \<open>None\<close> is Python's \<^verbatim>\<open>None\<close>.\<close>

record CrowdAnalyzer =
  frame_height :: int
  frame_width :: int
  frame_area :: int
  grid_size :: int
  previous_positions :: "point list option"
  previous_timestamp :: "string option"

text \<open>\<^verbatim>\<open>CrowdAnalyzer.__init__(frame_shape)\<close> with \<^verbatim>\<open>frame_shape = (height, width)\<close>.\<close>

definition CrowdAnalyzer_init :: "int \<times> int \<Rightarrow> CrowdAnalyzer" where
  "CrowdAnalyzer_init frame_shape =
     (case frame_shape of (h, w) \<Rightarrow>
        \<lparr>frame_height = h, frame_width = w, frame_area = h * w,
         grid_size = DENSITY_GRID_SIZE,
         previous_positions = None, previous_timestamp = None\<rparr>)"

subsection \<open>Python and numpy primitives\<close>

text \<open>\<^verbatim>\<open>int(x)\<close> on a float truncates towards zero.\<close>

definition py_int :: "real \<Rightarrow> int" where
  "py_int x = (if 0 \<le> x then \<lfloor>x\<rfloor> else \<lceil>x\<rceil>)"

text \<open>
  \<^verbatim>\<open>round(x, ndigits)\<close>: the nearest multiple of \<open>10 ^ (- ndigits)\<close>, a tie going to the
  even neighbour.
\<close>

definition round_half_even :: "real \<Rightarrow> int" where
  "round_half_even y =
     (let f = \<lfloor>y\<rfloor>; d = y - of_int f
      in if d < 1 / 2 then f else if 1 / 2 < d then f + 1
         else if even f then f else f + 1)"

definition py_round :: "real \<Rightarrow> nat \<Rightarrow> real" where
  "py_round x ndigits = of_int (round_half_even (x * 10 ^ ndigits)) / 10 ^ ndigits"

text \<open>
  An index into a numpy axis of length \<open>n\<close>: a negative index counts from the end, and
  an index outside \<open>[- n, n)\<close> raises \<^verbatim>\<open>IndexError\<close>.
\<close>

definition np_index :: "nat \<Rightarrow> int \<Rightarrow> py_error + nat" where
  "np_index n i =
     (if 0 \<le> i \<and> i < int n then Inr (nat i)
      else if - int n \<le> i \<and> i < 0 then Inr (nat (i + int n))
      else Inl IndexError)"

text \<open>\<^verbatim>\<open>np.linalg.norm\<close> of the difference of two points.\<close>

definition norm2 :: "point \<Rightarrow> point \<Rightarrow> real" where
  "norm2 p q = sqrt ((fst p - fst q)\<^sup>2 + (snd p - snd q)\<^sup>2)"

text \<open>\<^verbatim>\<open>a.min()\<close> and \<^verbatim>\<open>a.max()\<close> raise \<^verbatim>\<open>ValueError\<close> on an array of size zero.\<close>

fun np_min :: "real list \<Rightarrow> py_error + real" where
  "np_min [] = Inl ValueError"
| "np_min (x # xs) = Inr (fold min xs x)"

fun np_max :: "real list \<Rightarrow> py_error + real" where
  "np_max [] = Inl ValueError"
| "np_max (x # xs) = Inr (fold max xs x)"

definition np_mean :: "real list \<Rightarrow> real" where
  "np_mean xs = sum_list xs / real (length xs)"

subsection \<open>Density score\<close>

definition calculate_density_score :: "CrowdAnalyzer \<Rightarrow> nat \<Rightarrow> real" where
  "calculate_density_score self person_count =
     (if frame_area self = 0 then 0
      else
        let pixels_per_sqm = 10000;
            frame_area_sqm = real_of_int (frame_area self) / pixels_per_sqm;
            density = real person_count / max frame_area_sqm 1;
            density_score = min (density / 2 * 100) 100
        in py_round density_score 2)"

subsection \<open>Risk classification\<close>

definition classify_risk ::
  "nat \<Rightarrow> real \<Rightarrow> DensityZone list \<Rightarrow> real \<Rightarrow> RiskLevel \<times> real \<times> AnomalyType" where
  "classify_risk person_count density_score high_density_zones avg_velocity =
     (let risk_score = 0;
          risk_score = risk_score + density_score * (4 / 10);
          zone_factor = min (real (length high_density_zones) * 10) 30;
          risk_score = risk_score + zone_factor;
          velocity_factor = min (avg_velocity / ANOMALY_MOVEMENT_THRESHOLD * 20) 20;
          risk_score = risk_score + velocity_factor;
          count_factor = min (real person_count / 100 * 10) 10;
          risk_score = risk_score + count_factor;
          risk_score = min risk_score 100;
          risk_level =
            (if risk_score < 25 then LOW
             else if risk_score < 50 then MEDIUM
             else if risk_score < 75 then HIGH
             else CRITICAL);
          anomaly_type = NORMAL;
          anomaly_type =
            (if avg_velocity > ANOMALY_MOVEMENT_THRESHOLD then SUDDEN_MOVEMENT
             else if length high_density_zones > 3 then HIGH_DENSITY
             else if density_score > 70 then CLUSTERING
             else anomaly_type);
          anomaly_type = (if risk_level = CRITICAL then RUSH_BEHAVIOR else anomaly_type)
      in (risk_level, py_round risk_score 2, anomaly_type))"

text \<open>
  The comparison of the total with a level threshold is decided by the rounding of the
  floating-point operations when the total is next to the threshold. \<open>classify_risk_fl\<close>
  is the same method with that rounding written out: \<open>fl\<close> rounds the exact result of one
  floating-point operation (the literal \<^verbatim>\<open>0.4\<close>, a product, a quotient, a sum, the result of
  \<^verbatim>\<open>round\<close>) to a float. The integer \<^verbatim>\<open>zone_factor\<close>, \<^verbatim>\<open>min\<close> and the comparisons are
  exact. With the identity for \<open>fl\<close> it is \<open>classify_risk\<close>.
\<close>

definition classify_risk_fl ::
  "(real \<Rightarrow> real) \<Rightarrow> nat \<Rightarrow> real \<Rightarrow> DensityZone list \<Rightarrow> real \<Rightarrow>
     RiskLevel \<times> real \<times> AnomalyType" where
  "classify_risk_fl fl person_count density_score high_density_zones avg_velocity =
     (let risk_score = 0;
          risk_score = fl (risk_score + fl (density_score * fl (4 / 10)));
          zone_factor = min (real (length high_density_zones) * 10) 30;
          risk_score = fl (risk_score + zone_factor);
          velocity_factor =
            min (fl (fl (avg_velocity / ANOMALY_MOVEMENT_THRESHOLD) * 20)) 20;
          risk_score = fl (risk_score + velocity_factor);
          count_factor = min (fl (fl (real person_count / 100) * 10)) 10;
          risk_score = fl (risk_score + count_factor);
          risk_score = min risk_score 100;
          risk_level =
            (if risk_score < 25 then LOW
             else if risk_score < 50 then MEDIUM
             else if risk_score < 75 then HIGH
             else CRITICAL);
          anomaly_type = NORMAL;
          anomaly_type =
            (if avg_velocity > ANOMALY_MOVEMENT_THRESHOLD then SUDDEN_MOVEMENT
             else if length high_density_zones > 3 then HIGH_DENSITY
             else if density_score > 70 then CLUSTERING
             else anomaly_type);
          anomaly_type = (if risk_level = CRITICAL then RUSH_BEHAVIOR else anomaly_type)
      in (risk_level, fl (py_round risk_score 2), anomaly_type))"

text \<open>
  A rounding function to compute with: rounding down to a multiple of \<open>1 / 1024\<close>, a
  float format of ten binary digits after the point.
\<close>

definition grid_1024 :: "real \<Rightarrow> real" where
  "grid_1024 x = of_int \<lfloor>x * 1024\<rfloor> / 1024"

subsection \<open>High-density zones\<close>

text \<open>
  The loop \<^verbatim>\<open>for x, y in centers\<close> over the grid of counts (a numpy array of shape
  \<open>(grid_h, grid_w)\<close>, here a list of rows). The counts are \<open>nat\<close>: the wrap-around of
  \<^verbatim>\<open>int32\<close> needs more than \<open>2 ^ 31\<close> centers in one cell.
\<close>

fun tally_centers ::
  "int \<Rightarrow> int \<Rightarrow> int \<Rightarrow> point list \<Rightarrow> nat list list \<Rightarrow> py_error + nat list list" where
  "tally_centers gs grid_h grid_w [] grid_counts = Inr grid_counts"
| "tally_centers gs grid_h grid_w ((x, y) # rest) grid_counts =
     (let grid_x = min (py_int (x / real_of_int gs)) (grid_w - 1);
          grid_y = min (py_int (y / real_of_int gs)) (grid_h - 1)
      in case np_index (nat grid_h) grid_y of
           Inl e \<Rightarrow> Inl e
         | Inr i \<Rightarrow>
             (case np_index (nat grid_w) grid_x of
                Inl e \<Rightarrow> Inl e
              | Inr j \<Rightarrow>
                  tally_centers gs grid_h grid_w rest
                    (grid_counts[i := (grid_counts ! i)[j := grid_counts ! i ! j + 1]])))"

definition make_zone :: "int \<Rightarrow> nat \<Rightarrow> nat \<Rightarrow> nat \<Rightarrow> DensityZone" where
  "make_zone gs i j count =
     \<lparr>zone_grid_position = (j, i),
      zone_bbox = (int j * gs, int i * gs, (int j + 1) * gs, (int i + 1) * gs),
      zone_person_count = count,
      zone_density_level =
        (if count > HIGH_DENSITY_THRESHOLD * 2 then ''critical'' else ''high'')\<rparr>"

text \<open>The two nested \<^verbatim>\<open>range\<close> loops that collect the zones, row by row.\<close>

definition scan_grid :: "int \<Rightarrow> nat \<Rightarrow> nat \<Rightarrow> nat list list \<Rightarrow> DensityZone list" where
  "scan_grid gs grid_h grid_w grid_counts =
     concat (map (\<lambda>i. concat (map (\<lambda>j.
       (let count = grid_counts ! i ! j
        in if count \<ge> HIGH_DENSITY_THRESHOLD then [make_zone gs i j count] else []))
       [0..<grid_w])) [0..<grid_h])"

text \<open>
  \<^verbatim>\<open>//\<close> by zero raises \<^verbatim>\<open>ZeroDivisionError\<close>; \<^verbatim>\<open>np.zeros\<close> with a negative dimension
  raises \<^verbatim>\<open>ValueError\<close>.
\<close>

definition detect_high_density_zones ::
  "CrowdAnalyzer \<Rightarrow> point list \<Rightarrow> py_error + DensityZone list" where
  "detect_high_density_zones self centers =
     (if length centers = 0 then Inr []
      else if grid_size self = 0 then Inl ZeroDivisionError
      else
        let grid_h = frame_height self div grid_size self;
            grid_w = frame_width self div grid_size self
        in if grid_h < 0 \<or> grid_w < 0 then Inl ValueError
           else
             (case tally_centers (grid_size self) grid_h grid_w centers
                     (replicate (nat grid_h) (replicate (nat grid_w) 0)) of
                Inl e \<Rightarrow> Inl e
              | Inr grid_counts \<Rightarrow>
                  Inr (scan_grid (grid_size self) (nat grid_h) (nat grid_w) grid_counts)))"

subsection \<open>Clusters\<close>

text \<open>
  \<^verbatim>\<open>DBSCAN(eps, min_samples).fit_predict\<close> is scikit-learn's: it is a parameter
  \<open>dbscan\<close> of the model, giving one label for each center (\<open>-1\<close> for noise). The
  order in which Python iterates over \<^verbatim>\<open>set(labels)\<close> is a parameter too, \<open>set_iter\<close>.
\<close>

definition make_cluster :: "int \<Rightarrow> point list \<Rightarrow> py_error + Cluster" where
  "make_cluster label cluster_points =
     (case np_min (map fst cluster_points) of
        Inl e \<Rightarrow> Inl e
      | Inr x_min \<Rightarrow>
     (case np_min (map snd cluster_points) of
        Inl e \<Rightarrow> Inl e
      | Inr y_min \<Rightarrow>
     (case np_max (map fst cluster_points) of
        Inl e \<Rightarrow> Inl e
      | Inr x_max \<Rightarrow>
     (case np_max (map snd cluster_points) of
        Inl e \<Rightarrow> Inl e
      | Inr y_max \<Rightarrow>
          Inr \<lparr>cluster_id = label,
               cluster_size = length cluster_points,
               cluster_center =
                 (np_mean (map fst cluster_points), np_mean (map snd cluster_points)),
               cluster_bbox = (py_int x_min, py_int y_min, py_int x_max, py_int y_max),
               cluster_area = py_int ((x_max - x_min) * (y_max - y_min))\<rparr>))))"

fun build_clusters ::
  "point list \<Rightarrow> int list \<Rightarrow> int list \<Rightarrow> Cluster list \<Rightarrow> py_error + Cluster list" where
  "build_clusters centers labels [] clusters = Inr clusters"
| "build_clusters centers labels (label # rest) clusters =
     (if label = - 1 then build_clusters centers labels rest clusters
      else
        (case make_cluster label
                (map fst (filter (\<lambda>pl. snd pl = label) (zip centers labels))) of
           Inl e \<Rightarrow> Inl e
         | Inr cluster \<Rightarrow> build_clusters centers labels rest (clusters @ [cluster])))"

text \<open>
  \<^verbatim>\<open>clusters.sort(key=lambda x: x["size"], reverse=True)\<close>: Python's sort is stable, also
  with \<^verbatim>\<open>reverse=True\<close>. It is modelled as an insertion sort that puts an element before
  the first one that is not larger.
\<close>

fun insort_size :: "Cluster \<Rightarrow> Cluster list \<Rightarrow> Cluster list" where
  "insort_size c [] = [c]"
| "insort_size c (d # ds) =
     (if cluster_size d \<le> cluster_size c then c # d # ds else d # insort_size c ds)"

definition sort_size_reverse :: "Cluster list \<Rightarrow> Cluster list" where
  "sort_size_reverse cs = foldr insort_size cs []"

text \<open>The clusters in the order the loop over the labels meets them, before the sort.\<close>

definition encounter_clusters ::
  "(real \<Rightarrow> nat \<Rightarrow> point list \<Rightarrow> int list) \<Rightarrow> (int list \<Rightarrow> int list) \<Rightarrow> point list \<Rightarrow>
     py_error + Cluster list" where
  "encounter_clusters dbscan set_iter centers =
     (if length centers < MIN_CLUSTER_SIZE then Inr []
      else
        let labels = dbscan CLUSTERING_EPS MIN_CLUSTER_SIZE centers;
            unique_labels = set_iter labels
        in if length labels = length centers
           then build_clusters centers labels unique_labels []
           else Inl IndexError)"

definition detect_clusters ::
  "(real \<Rightarrow> nat \<Rightarrow> point list \<Rightarrow> int list) \<Rightarrow> (int list \<Rightarrow> int list) \<Rightarrow> point list \<Rightarrow>
     py_error + Cluster list" where
  "detect_clusters dbscan set_iter centers =
     (case encounter_clusters dbscan set_iter centers of
        Inl e \<Rightarrow> Inl e
      | Inr clusters \<Rightarrow> Inr (sort_size_reverse clusters))"

subsection \<open>Movement\<close>

text \<open>The loop \<^verbatim>\<open>for curr_pos in current_positions\<close> that collects the velocities.\<close>

fun collect_velocities ::
  "point list \<Rightarrow> real \<Rightarrow> point list \<Rightarrow> real list \<Rightarrow> py_error + real list" where
  "collect_velocities prev time_delta [] velocities = Inr velocities"
| "collect_velocities prev time_delta (curr_pos # rest) velocities =
     (let distances = map (\<lambda>p. norm2 p curr_pos) prev
      in case np_min distances of
           Inl e \<Rightarrow> Inl e
         | Inr min_dist \<Rightarrow>
             if min_dist < 200
             then collect_velocities prev time_delta rest
                    (velocities @ [min_dist / max time_delta (1 / 1000)])
             else collect_velocities prev time_delta rest velocities)"

definition calculate_movement ::
  "CrowdAnalyzer \<Rightarrow> point list \<Rightarrow> real \<Rightarrow> py_error + real \<times> CrowdAnalyzer" where
  "calculate_movement self current_positions time_delta =
     (case previous_positions self of
        None \<Rightarrow> Inr (0, self\<lparr>previous_positions := Some current_positions\<rparr>)
      | Some prev \<Rightarrow>
          if length current_positions = 0
          then Inr (0, self\<lparr>previous_positions := Some current_positions\<rparr>)
          else if length prev = 0
          then Inr (0, self\<lparr>previous_positions := Some current_positions\<rparr>)
          else
            (case collect_velocities prev time_delta current_positions [] of
               Inl e \<Rightarrow> Inl e
             | Inr velocities \<Rightarrow>
                 Inr (if velocities \<noteq> [] then np_mean velocities else 0,
                      self\<lparr>previous_positions := Some current_positions\<rparr>)))"

subsection \<open>The analysis of one frame\<close>

definition analyze ::
  "(real \<Rightarrow> nat \<Rightarrow> point list \<Rightarrow> int list) \<Rightarrow> (int list \<Rightarrow> int list) \<Rightarrow>
     CrowdAnalyzer \<Rightarrow> Detection list \<Rightarrow> string \<Rightarrow> real \<Rightarrow> py_error + CrowdMetrics \<times> CrowdAnalyzer" where
  "analyze dbscan set_iter self detections timestamp time_delta =
     (let person_count = length detections;
          centers = (if person_count > 0 then map det_center detections else []);
          density_score = calculate_density_score self person_count
      in case detect_high_density_zones self centers of
           Inl e \<Rightarrow> Inl e
         | Inr high_density_zones \<Rightarrow>
         (case detect_clusters dbscan set_iter centers of
            Inl e \<Rightarrow> Inl e
          | Inr clusters \<Rightarrow>
          (case calculate_movement self centers time_delta of
             Inl e \<Rightarrow> Inl e
           | Inr (avg_velocity, self') \<Rightarrow>
           (case classify_risk person_count density_score high_density_zones avg_velocity of
              (risk_level, risk_score, anomaly_type) \<Rightarrow>
                Inr (\<lparr>cm_total_count = person_count,
                      cm_density_score = density_score,
                      cm_risk_level = risk_level,
                      cm_risk_score = risk_score,
                      cm_anomaly_type = anomaly_type,
                      cm_high_density_zones = high_density_zones,
                      cm_clusters = clusters,
                      cm_avg_velocity = py_round avg_velocity 2,
                      cm_frame_area = frame_area self,
                      cm_timestamp = timestamp\<rparr>, self')))))"

subsection \<open>The risk score as the specification words it\<close>

text \<open>
  These definitions follow the specification's description of the risk classifier, not
  the code: the sum of the four factors, the clamp of the total to \<open>[0, 100]\<close> and the
  level thresholds. They are compared with \<open>classify_risk\<close> and \<open>classify_risk_fl\<close>
  below.
\<close>

definition risk_factor_sum :: "nat \<Rightarrow> real \<Rightarrow> DensityZone list \<Rightarrow> real \<Rightarrow> real" where
  "risk_factor_sum n d zs v =
     d * (4 / 10) + min (real (length zs) * 10) 30
       + min (v / ANOMALY_MOVEMENT_THRESHOLD * 20) 20 + min (real n / 100 * 10) 10"

definition level_of_score :: "real \<Rightarrow> RiskLevel" where
  "level_of_score s =
     (if s < 25 then LOW else if s < 50 then MEDIUM else if s < 75 then HIGH else CRITICAL)"

definition clamp_0_100 :: "real \<Rightarrow> real" where
  "clamp_0_100 s = max 0 (min s 100)"

text \<open>
  The four pre-capped factors and their total as floating-point arithmetic computes them,
  each operation rounded by \<open>fl\<close> and the factors added from left to right.
\<close>

definition density_factor :: "(real \<Rightarrow> real) \<Rightarrow> real \<Rightarrow> real" where
  "density_factor fl d = fl (d * fl (4 / 10))"

definition zones_factor :: "DensityZone list \<Rightarrow> real" where
  "zones_factor zs = min (real (length zs) * 10) 30"

definition velocity_factor :: "(real \<Rightarrow> real) \<Rightarrow> real \<Rightarrow> real" where
  "velocity_factor fl v = min (fl (fl (v / ANOMALY_MOVEMENT_THRESHOLD) * 20)) 20"

definition count_factor :: "(real \<Rightarrow> real) \<Rightarrow> nat \<Rightarrow> real" where
  "count_factor fl n = min (fl (fl (real n / 100) * 10)) 10"

definition risk_factor_total ::
  "(real \<Rightarrow> real) \<Rightarrow> nat \<Rightarrow> real \<Rightarrow> DensityZone list \<Rightarrow> real \<Rightarrow> real" where
  "risk_factor_total fl n d zs v =
     fl (fl (fl (fl (0 + density_factor fl d) + zones_factor zs) + velocity_factor fl v)
           + count_factor fl n)"

subsection \<open>The movement estimate as the specification words it\<close>

text \<open>
  These definitions follow the specification's description of the motion estimator: the
  distance from a current point to its nearest stored previous point, the test that this
  distance is below 200 pixels, and the mean of the velocities of the points that pass
  it. They are compared with \<open>calculate_movement\<close> below.
\<close>

definition nearest_distance :: "point list \<Rightarrow> point \<Rightarrow> real" where
  "nearest_distance prev p = Min ((\<lambda>q. norm2 q p) ` set prev)"

definition within_range :: "point list \<Rightarrow> point \<Rightarrow> bool" where
  "within_range prev p = (prev \<noteq> [] \<and> nearest_distance prev p < 200)"

definition movement_claimed :: "point list option \<Rightarrow> point list \<Rightarrow> real \<Rightarrow> real" where
  "movement_claimed stored current_positions time_delta =
     (if stored = None \<or> current_positions = [] then 0
      else
        let prev = the stored;
            sample = map (\<lambda>p. nearest_distance prev p / max time_delta (1 / 1000))
                       (filter (within_range prev) current_positions)
        in if sample = [] then 0 else sum_list sample / real (length sample))"

subsection \<open>Order of the clusters\<close>

definition size_descending :: "Cluster list \<Rightarrow> bool" where
  "size_descending cs = sorted_wrt (\<lambda>a b. cluster_size b \<le> cluster_size a) cs"

subsection \<open>Concrete inputs\<close>

text \<open>The five detections of \<^verbatim>\<open>test_analyzer\<close>, which are those of the specification's scenario.\<close>

definition scenario_detections :: "Detection list" where
  "scenario_detections =
     [\<lparr>det_center = (100, 100)\<rparr>, \<lparr>det_center = (120, 105)\<rparr>, \<lparr>det_center = (105, 120)\<rparr>,
      \<lparr>det_center = (600, 400)\<rparr>, \<lparr>det_center = (605, 405)\<rparr>]"

text \<open>
  Twelve centers in two groups, and a labelling that stands for DBSCAN on them: label 0
  left of \<open>x = 500\<close>, label 1 right of it.
\<close>

definition two_groups :: "point list" where
  "two_groups =
     [(0, 0), (600, 0), (1, 0), (601, 0), (0, 1), (600, 1), (1, 1), (601, 1),
      (700, 0), (700, 1), (701, 0), (701, 1)]"

definition split_at_500 :: "real \<Rightarrow> nat \<Rightarrow> point list \<Rightarrow> int list" where
  "split_at_500 eps min_samples pts = map (\<lambda>p. if fst p < 500 then 0 else 1) pts"

section \<open>Properties\<close>

subsection \<open>Rounding\<close>

lemma round_half_even_nonneg: "0 \<le> y \<Longrightarrow> 0 \<le> round_half_even y"
  by (auto simp: round_half_even_def Let_def)

lemma round_half_even_le:
  assumes y: "y \<le> of_int n"
  shows "round_half_even y \<le> n"
proof -
  have fl: "\<lfloor>y\<rfloor> \<le> n" using y by (simp add: floor_le_iff)
  show ?thesis
  proof (cases "\<lfloor>y\<rfloor> = n")
    case True
    then have "y - of_int \<lfloor>y\<rfloor> \<le> 0" using y by simp
    then show ?thesis using True by (simp add: round_half_even_def Let_def)
  next
    case False
    then have "\<lfloor>y\<rfloor> + 1 \<le> n" using fl by simp
    then show ?thesis using fl by (simp add: round_half_even_def Let_def)
  qed
qed

lemma py_round_nonneg: "0 \<le> x \<Longrightarrow> 0 \<le> py_round x 2"
  by (simp add: py_round_def round_half_even_nonneg)

lemma py_round_le_100:
  assumes "x \<le> 100"
  shows "py_round x 2 \<le> 100"
proof -
  from assms have "x * 10\<^sup>2 \<le> of_int 10000" by simp
  then have "round_half_even (x * 10\<^sup>2) \<le> 10000" by (rule round_half_even_le)
  then have "real_of_int (round_half_even (x * 10\<^sup>2)) \<le> 10000" by linarith
  then show ?thesis by (simp add: py_round_def)
qed

lemma py_round_zero: "py_round 0 n = 0"
  by (simp add: py_round_def round_half_even_def)

subsection \<open>Density score\<close>

text \<open>
  Claim C1. The claim has \<open>calculate_density_score\<close> map a density of 0.5 people per
  square meter to the score 50 and a density of 2 to the score 100, as the comment above
  the formula in the source does. The formula is \<open>density / 2 * 100\<close>: on a frame of
  1000 by 1000 pixels (100 square meters at 10000 pixels per square meter) 50 people are
  0.5 people per square meter, and the score returned is 25.
\<close>

theorem density_score_at_half_person_per_sqm:
  "calculate_density_score (CrowdAnalyzer_init (1000, 1000)) 50 = 25"
  by (simp add: calculate_density_score_def CrowdAnalyzer_init_def py_round_def
      round_half_even_def Let_def)

text \<open>The upper anchor of the claim holds on the same frame: 2 people per square meter give 100.\<close>

lemma density_score_at_two_persons_per_sqm:
  "calculate_density_score (CrowdAnalyzer_init (1000, 1000)) 200 = 100"
  by (simp add: calculate_density_score_def CrowdAnalyzer_init_def py_round_def
      round_half_even_def Let_def)

lemma density_score_zero_area: "frame_area self = 0 \<Longrightarrow> calculate_density_score self n = 0"
  by (simp add: calculate_density_score_def)

lemma density_score_no_people: "calculate_density_score self 0 = 0"
  by (simp add: calculate_density_score_def py_round_zero)

lemma density_ignores_history:
  "calculate_density_score (self\<lparr>previous_positions := p\<rparr>) n = calculate_density_score self n"
  by (simp add: calculate_density_score_def)

lemma density_range:
  "0 \<le> calculate_density_score self n \<and> calculate_density_score self n \<le> 100"
proof (cases "frame_area self = 0")
  case True
  then show ?thesis by (simp add: calculate_density_score_def)
next
  case False
  let ?a = "max (real_of_int (frame_area self) / 10000) 1"
  let ?s = "min (real n / ?a / 2 * 100) 100"
  have a: "0 < ?a" by simp
  have nn: "0 \<le> real n / ?a" using a by (simp del: less_max_iff_disj)
  have lo: "0 \<le> ?s" using nn by simp
  have hi: "?s \<le> 100" by simp
  have eq: "calculate_density_score self n = py_round ?s 2"
    using False by (simp add: calculate_density_score_def Let_def)
  show ?thesis
    unfolding eq by (rule conjI [OF py_round_nonneg [OF lo] py_round_le_100 [OF hi]])
qed

subsection \<open>Risk classification\<close>

text \<open>The sequence of assignments of \<open>classify_risk\<close>, read off as one triple.\<close>

lemma classify_risk_unfold:
  "classify_risk n d zs v =
     (level_of_score (min (risk_factor_sum n d zs v) 100),
      py_round (min (risk_factor_sum n d zs v) 100) 2,
      (if level_of_score (min (risk_factor_sum n d zs v) 100) = CRITICAL then RUSH_BEHAVIOR
       else if v > ANOMALY_MOVEMENT_THRESHOLD then SUDDEN_MOVEMENT
       else if length zs > 3 then HIGH_DENSITY
       else if d > 70 then CLUSTERING
       else NORMAL))"
  by (simp only: classify_risk_def risk_factor_sum_def level_of_score_def Let_def add_0)

lemma risk_factor_sum_nonneg: "0 \<le> d \<Longrightarrow> 0 \<le> v \<Longrightarrow> 0 \<le> risk_factor_sum n d zs v"
  by (simp add: risk_factor_sum_def ANOMALY_MOVEMENT_THRESHOLD_def)

lemma risk_score_range:
  assumes "0 \<le> d" and "0 \<le> v"
  shows "0 \<le> fst (snd (classify_risk n d zs v)) \<and> fst (snd (classify_risk n d zs v)) \<le> 100"
proof -
  have lo: "0 \<le> min (risk_factor_sum n d zs v) 100"
    using risk_factor_sum_nonneg [OF assms, of n zs] by simp
  have hi: "min (risk_factor_sum n d zs v) 100 \<le> 100" by simp
  have r: "fst (snd (classify_risk n d zs v)) = py_round (min (risk_factor_sum n d zs v) 100) 2"
    by (simp add: classify_risk_unfold)
  show ?thesis
    unfolding r by (rule conjI [OF py_round_nonneg [OF lo] py_round_le_100 [OF hi]])
qed

lemma classify_risk_all_zero: "classify_risk 0 0 [] 0 = (LOW, 0, NORMAL)"
  by (simp add: classify_risk_unfold risk_factor_sum_def level_of_score_def py_round_zero
      ANOMALY_MOVEMENT_THRESHOLD_def)

lemma classify_risk_fl_unfold:
  "classify_risk_fl fl n d zs v =
     (level_of_score (min (risk_factor_total fl n d zs v) 100),
      fl (py_round (min (risk_factor_total fl n d zs v) 100) 2),
      (if level_of_score (min (risk_factor_total fl n d zs v) 100) = CRITICAL then RUSH_BEHAVIOR
       else if v > ANOMALY_MOVEMENT_THRESHOLD then SUDDEN_MOVEMENT
       else if length zs > 3 then HIGH_DENSITY
       else if d > 70 then CLUSTERING
       else NORMAL))"
  by (simp only: classify_risk_fl_def risk_factor_total_def density_factor_def zones_factor_def
      velocity_factor_def count_factor_def level_of_score_def Let_def)

lemma classify_risk_fl_exact: "classify_risk_fl (\<lambda>x. x) n d zs v = classify_risk n d zs v"
  by (simp only: classify_risk_fl_def classify_risk_def)

lemma fl_nonneg: "mono fl \<Longrightarrow> fl 0 = 0 \<Longrightarrow> 0 \<le> x \<Longrightarrow> 0 \<le> fl x"
  by (metis monoD)

lemma risk_factor_total_nonneg:
  assumes m: "mono fl" and z: "fl 0 = 0" and d: "0 \<le> d" and v: "0 \<le> v"
  shows "0 \<le> risk_factor_total fl n d zs v"
proof -
  note nn = fl_nonneg [OF m z]
  have c: "0 \<le> fl (4 / 10)" by (rule nn) simp
  have df: "0 \<le> density_factor fl d"
    unfolding density_factor_def by (rule nn) (rule mult_nonneg_nonneg [OF d c])
  have zf: "0 \<le> zones_factor zs" by (simp add: zones_factor_def)
  have "0 \<le> fl (v / ANOMALY_MOVEMENT_THRESHOLD)"
    by (rule nn) (simp add: v ANOMALY_MOVEMENT_THRESHOLD_def)
  then have "0 \<le> fl (fl (v / ANOMALY_MOVEMENT_THRESHOLD) * 20)" by (intro nn) simp
  then have vf: "0 \<le> velocity_factor fl v" by (simp add: velocity_factor_def)
  have "0 \<le> fl (real n / 100)" by (rule nn) simp
  then have "0 \<le> fl (fl (real n / 100) * 10)" by (intro nn) simp
  then have cf: "0 \<le> count_factor fl n" by (simp add: count_factor_def)
  have s1: "0 \<le> fl (0 + density_factor fl d)"
    by (rule nn) (rule add_nonneg_nonneg [OF order_refl df])
  have s2: "0 \<le> fl (fl (0 + density_factor fl d) + zones_factor zs)"
    by (rule nn) (rule add_nonneg_nonneg [OF s1 zf])
  have s3: "0 \<le> fl (fl (fl (0 + density_factor fl d) + zones_factor zs) + velocity_factor fl v)"
    by (rule nn) (rule add_nonneg_nonneg [OF s2 vf])
  show ?thesis
    unfolding risk_factor_total_def by (rule nn) (rule add_nonneg_nonneg [OF s3 cf])
qed

text \<open>
  Claim C2, as stated: the total is rounded to 2 decimals and the level is assigned by
  the thresholds, below 25 being Low. For count 2, density score 61.99, no zones and
  velocity 0 the total is 24.996: \<open>classify_risk\<close> returns the level \<open>LOW\<close> together with
  the risk score 25, and by the thresholds a risk score of 25 is not Low but Medium.
\<close>

theorem classify_risk_low_with_score_25:
  "classify_risk 2 (6199 / 100) [] 0 = (LOW, 25, NORMAL) \<and> level_of_score 25 = MEDIUM"
  by (simp add: classify_risk_unfold risk_factor_sum_def level_of_score_def py_round_def
      round_half_even_def ANOMALY_MOVEMENT_THRESHOLD_def)

text \<open>
  Claim C2, amended: for every count, every density score \<open>d \<ge> 0\<close> (as
  \<open>calculate_density_score\<close> returns it, lemma \<open>density_range\<close>), every list of zones and
  every velocity \<open>v \<ge> 0\<close>, the risk score returned is the total of the four pre-capped
  factors, clamped to \<open>[0, 100]\<close> and rounded to 2 decimals, and the risk level is
  assigned by the thresholds 25, 50 and 75 applied to the clamped total before it is
  rounded to 2 decimals. This holds for every rounding \<open>fl\<close> of the floating-point
  operations that is monotone and leaves 0 alone, as rounding to the nearest float is.
\<close>

theorem classify_risk_fl_score_and_level:
  assumes "mono fl" and "fl 0 = 0" and "0 \<le> d" and "0 \<le> v"
  shows "fst (classify_risk_fl fl n d zs v) =
           level_of_score (clamp_0_100 (risk_factor_total fl n d zs v))
     \<and> fst (snd (classify_risk_fl fl n d zs v)) =
           fl (py_round (clamp_0_100 (risk_factor_total fl n d zs v)) 2)"
proof -
  have "clamp_0_100 (risk_factor_total fl n d zs v) = min (risk_factor_total fl n d zs v) 100"
    using risk_factor_total_nonneg [OF assms, of n zs] by (simp add: clamp_0_100_def)
  then show ?thesis by (simp add: classify_risk_fl_unfold)
qed

lemma risk_factor_total_exact_example:
  "risk_factor_total (\<lambda>x. x) 2 (6199 / 100) [] 0 = 24996 / 1000"
  by (simp add: risk_factor_total_def density_factor_def zones_factor_def velocity_factor_def
      count_factor_def ANOMALY_MOVEMENT_THRESHOLD_def)

text \<open>
  The amended claim in exact arithmetic at count 2, density score 61.99, no zones and
  velocity 0: the clamped total 24.996 is below 25, the level is \<open>LOW\<close>, and the total
  rounds to 25.
\<close>

theorem classify_risk_fl_score_and_level_witness:
  "fst (classify_risk 2 (6199 / 100) [] 0) = LOW \<and>
   fst (snd (classify_risk 2 (6199 / 100) [] 0)) = 25"
proof -
  have m: "mono (\<lambda>x::real. x)" by (simp add: mono_def)
  show ?thesis
    using classify_risk_fl_score_and_level [OF m, of "6199 / 100" 0 2 "[]"]
    by (simp add: classify_risk_fl_exact risk_factor_total_exact_example clamp_0_100_def
        level_of_score_def py_round_def round_half_even_def)
qed

text \<open>
  Rounding decides the level next to a threshold. For count 12, density score 12.5, no
  zones and velocity 47 the exact total is 25 and the level \<open>MEDIUM\<close>; when every
  operation rounds down to a multiple of \<open>1 / 1024\<close> the total stays below 25 and the
  level is \<open>LOW\<close>.
\<close>

lemma grid_1024_mono: "mono grid_1024"
  by (auto simp: mono_def grid_1024_def divide_right_mono floor_mono)

lemma grid_1024_zero: "grid_1024 0 = 0"
  by (simp add: grid_1024_def)

lemma classify_risk_rounding_decides_level:
  "classify_risk_fl grid_1024 12 (25 / 2) [] 47 = (LOW, 25569 / 1024, NORMAL) \<and>
   fst (classify_risk 12 (25 / 2) [] 47) = MEDIUM"
  by (simp add: classify_risk_fl_unfold risk_factor_total_def density_factor_def
      zones_factor_def velocity_factor_def count_factor_def grid_1024_def
      classify_risk_unfold risk_factor_sum_def level_of_score_def py_round_def
      round_half_even_def ANOMALY_MOVEMENT_THRESHOLD_def)

text \<open>
  Claim C3. The anomaly type returned by \<open>classify_risk\<close> is \<open>RUSH_BEHAVIOR\<close> whenever
  the returned risk level is \<open>CRITICAL\<close>; otherwise it is decided by the ordered chain:
  velocity above the movement threshold, then more than 3 zones, then a density score
  above 70, then \<open>NORMAL\<close>.
\<close>

theorem classify_risk_anomaly_chain:
  "snd (snd (classify_risk n d zs v)) =
     (if fst (classify_risk n d zs v) = CRITICAL then RUSH_BEHAVIOR
      else if v > ANOMALY_MOVEMENT_THRESHOLD then SUDDEN_MOVEMENT
      else if length zs > 3 then HIGH_DENSITY
      else if d > 70 then CLUSTERING
      else NORMAL)"
  by (simp only: classify_risk_def Let_def fst_conv snd_conv)

text \<open>
  Two runs of the chain: a velocity of 100 with a total of 70 is reported as sudden
  movement; with three zones more the total is 100, the level is critical, and the same
  velocity is reported as rush behaviour.
\<close>

lemma classify_risk_sudden_movement:
  "classify_risk 200 100 [] 100 = (HIGH, 70, SUDDEN_MOVEMENT)"
  by (simp add: classify_risk_unfold risk_factor_sum_def level_of_score_def py_round_def
      round_half_even_def ANOMALY_MOVEMENT_THRESHOLD_def)

lemma classify_risk_critical_overrides:
  "classify_risk 200 100 [z1, z2, z3] 100 = (CRITICAL, 100, RUSH_BEHAVIOR)"
  by (simp add: classify_risk_unfold risk_factor_sum_def level_of_score_def py_round_def
      round_half_even_def ANOMALY_MOVEMENT_THRESHOLD_def)

subsection \<open>Movement\<close>

lemma np_min_map:
  "prev \<noteq> [] \<Longrightarrow> np_min (map f prev) = Inr (Min (f ` set prev))"
  by (cases prev) (simp_all add: Min.set_eq_fold [symmetric])

text \<open>The loop appends, in order, the velocity of every current point within range.\<close>

lemma collect_velocities_eq:
  assumes "prev \<noteq> []"
  shows "collect_velocities prev td cur acc =
     Inr (acc @ map (\<lambda>p. nearest_distance prev p / max td (1 / 1000))
                  (filter (within_range prev) cur))"
proof (induction cur arbitrary: acc)
  case Nil
  show ?case by simp
next
  case (Cons p ps)
  have m: "np_min (map (\<lambda>q. norm2 q p) prev) = Inr (nearest_distance prev p)"
    using assms by (simp add: np_min_map nearest_distance_def)
  show ?case
    using assms by (simp add: m Cons.IH within_range_def)
qed

lemma calculate_movement_value:
  "calculate_movement self cur td =
     Inr (movement_claimed (previous_positions self) cur td,
          self\<lparr>previous_positions := Some cur\<rparr>)"
proof (cases "previous_positions self")
  case None
  then show ?thesis by (simp add: calculate_movement_def movement_claimed_def)
next
  case (Some prev)
  show ?thesis
  proof (cases "cur = [] \<or> prev = []")
    case True
    then show ?thesis
      using Some by (auto simp: calculate_movement_def movement_claimed_def within_range_def)
  next
    case False
    then have p: "prev \<noteq> []" and c: "cur \<noteq> []" by simp_all
    show ?thesis
      using Some c p
      by (simp add: calculate_movement_def movement_claimed_def collect_velocities_eq [OF p]
          np_mean_def Let_def)
  qed
qed

text \<open>
  Claim C4. For every analyzer state, every list of current positions and every time
  delta, \<open>calculate_movement\<close> raises no error, stores the current positions as the new
  previous positions, and returns the value the claim describes: 0 when no previous
  positions are stored or the current list is empty; otherwise the mean of
  \<open>distance / max(time_delta, 0.001)\<close> over the current points whose nearest stored point
  is less than 200 pixels away, and 0 when there is no such point.
\<close>

theorem calculate_movement_as_claimed:
  "calculate_movement self cur td =
     Inr (movement_claimed (previous_positions self) cur td,
          self\<lparr>previous_positions := Some cur\<rparr>)"
  by (rule calculate_movement_value)

lemma sqrt_25: "sqrt 25 = 5"
  by (rule real_sqrt_unique) simp_all

lemma sqrt_2000000_far: "\<not> sqrt 2000000 < 200"
proof -
  have "(200::real)\<^sup>2 \<le> 2000000" by simp
  then have "200 \<le> sqrt 2000000" by (rule real_le_rsqrt)
  then show ?thesis by simp
qed

text \<open>
  One stored point at the origin, two current points: \<open>(3, 4)\<close> at distance 5 is matched
  and, over half a second, moves at 10 pixels per second; \<open>(1000, 1000)\<close> is too far and
  is left out of the mean.
\<close>

theorem calculate_movement_as_claimed_witness:
  "calculate_movement
     ((CrowdAnalyzer_init (720, 1280))\<lparr>previous_positions := Some [(0, 0)]\<rparr>)
     [(3, 4), (1000, 1000)] (1 / 2) =
   Inr (10, (CrowdAnalyzer_init (720, 1280))\<lparr>previous_positions := Some [(3, 4), (1000, 1000)]\<rparr>)"
proof -
  have v: "movement_claimed (Some [(0, 0)]) [(3, 4), (1000, 1000)] (1 / 2) = 10"
    by (simp add: movement_claimed_def within_range_def nearest_distance_def norm2_def
        sqrt_25 sqrt_2000000_far Let_def)
  show ?thesis
    using calculate_movement_as_claimed
      [of "(CrowdAnalyzer_init (720, 1280))\<lparr>previous_positions := Some [(0, 0)]\<rparr>"
        "[(3, 4), (1000, 1000)]" "1 / 2"]
    by (simp add: v)
qed

lemma calculate_movement_first:
  "previous_positions self = None \<Longrightarrow>
   calculate_movement self cur td = Inr (0, self\<lparr>previous_positions := Some cur\<rparr>)"
  by (simp add: calculate_movement_def)

lemma calculate_movement_empty:
  "calculate_movement self [] td = Inr (0, self\<lparr>previous_positions := Some []\<rparr>)"
  by (simp add: calculate_movement_def split: option.split)

lemma calculate_movement_after_empty:
  "previous_positions self = Some [] \<Longrightarrow>
   calculate_movement self cur td = Inr (0, self\<lparr>previous_positions := Some cur\<rparr>)"
  by (simp add: calculate_movement_def)

lemma nearest_distance_nonneg: "prev \<noteq> [] \<Longrightarrow> 0 \<le> nearest_distance prev p"
  by (simp add: nearest_distance_def norm2_def)

lemma movement_claimed_nonneg: "0 \<le> movement_claimed stored cur td"
proof -
  have "0 \<le> sum_list (map (\<lambda>p. nearest_distance prev p / max td (1 / 1000))
      (filter (within_range prev) cur))" for prev
    by (rule sum_list_nonneg) (auto simp: within_range_def nearest_distance_nonneg)
  then show ?thesis by (simp add: movement_claimed_def Let_def)
qed

text \<open>Every velocity that \<open>calculate_movement\<close> returns is non-negative.\<close>

lemma calculate_movement_nonneg:
  "calculate_movement self cur td = Inr (v, self') \<Longrightarrow> 0 \<le> v"
  using movement_claimed_nonneg [of "previous_positions self" cur td]
  by (auto simp: calculate_movement_value)

subsection \<open>High-density zones\<close>

lemma zones_ignore_history:
  "detect_high_density_zones (self\<lparr>previous_positions := p\<rparr>) centers =
     detect_high_density_zones self centers"
  by (simp add: detect_high_density_zones_def Let_def split: sum.split)

lemma scenario_zones:
  "detect_high_density_zones (CrowdAnalyzer_init (720, 1280))
     [(100, 100), (120, 105), (105, 120), (600, 400), (605, 405)] = Inr []"
  by code_simp

text \<open>
  On a frame lower than one grid cell the grid has no row: the clamp
  \<^verbatim>\<open>min(int(y / grid_size), grid_h - 1)\<close> gives the index \<open>-1\<close>, which an axis of
  length 0 does not have.
\<close>

lemma zones_small_frame_raises:
  "detect_high_density_zones (CrowdAnalyzer_init (40, 40)) [(10, 10)] = Inl IndexError"
  by (simp add: detect_high_density_zones_def CrowdAnalyzer_init_def DENSITY_GRID_SIZE_def
      np_index_def py_int_def Let_def)

text \<open>
  The clamp bounds the cell index from above only: on a frame of 720 by 1280 pixels
  (25 columns) a center at \<open>x = -2000\<close> gives the column index \<open>-40\<close>.
\<close>

lemma zones_negative_center_raises:
  "detect_high_density_zones (CrowdAnalyzer_init (720, 1280)) [(- 2000, 10)] = Inl IndexError"
  by (simp add: detect_high_density_zones_def CrowdAnalyzer_init_def DENSITY_GRID_SIZE_def
      np_index_def py_int_def Let_def)

subsection \<open>Clusters\<close>

lemma detect_clusters_few:
  "length centers < MIN_CLUSTER_SIZE \<Longrightarrow> detect_clusters dbscan set_iter centers = Inr []"
  by (simp add: detect_clusters_def encounter_clusters_def sort_size_reverse_def)

lemma set_insort_size: "set (insort_size c cs) = insert c (set cs)"
  by (induction cs) auto

lemma insort_size_descending:
  "size_descending cs \<Longrightarrow> size_descending (insort_size c cs)"
  unfolding size_descending_def
  by (induction cs) (auto simp: set_insort_size)

lemma sort_size_reverse_descending: "size_descending (sort_size_reverse cs)"
proof (induction cs)
  case Nil
  show ?case by (simp add: sort_size_reverse_def size_descending_def)
next
  case (Cons c cs)
  then show ?case
    unfolding sort_size_reverse_def by (simp add: insort_size_descending)
qed

text \<open>The clusters of one size keep their places relative to each other.\<close>

lemma filter_insort_size:
  "filter (\<lambda>x. cluster_size x = k) (insort_size c cs) =
     (if cluster_size c = k then c # filter (\<lambda>x. cluster_size x = k) cs
      else filter (\<lambda>x. cluster_size x = k) cs)"
  by (induction cs) auto

lemma sort_size_reverse_stable:
  "filter (\<lambda>x. cluster_size x = k) (sort_size_reverse cs) = filter (\<lambda>x. cluster_size x = k) cs"
  unfolding sort_size_reverse_def
  by (induction cs) (simp_all add: filter_insort_size)

text \<open>
  Claim C8. For every list of centers (and every labelling by DBSCAN and every iteration
  order of the label set), the list returned by \<open>detect_clusters\<close> is in descending order
  of cluster size, and for every size the clusters of that size are in the order in which
  the loop over the labels met them.
\<close>

theorem detect_clusters_sorted_stable:
  assumes "detect_clusters dbscan set_iter centers = Inr cs"
  shows "size_descending cs \<and>
    (\<exists>es. encounter_clusters dbscan set_iter centers = Inr es \<and>
       (\<forall>k. filter (\<lambda>c. cluster_size c = k) cs = filter (\<lambda>c. cluster_size c = k) es))"
proof -
  from assms obtain es where es: "encounter_clusters dbscan set_iter centers = Inr es"
    and cs: "cs = sort_size_reverse es"
    by (auto simp: detect_clusters_def split: sum.splits)
  show ?thesis
    using es by (simp add: cs sort_size_reverse_descending sort_size_reverse_stable)
qed

text \<open>
  On the twelve centers of \<open>two_groups\<close> the loop meets label 0 (4 points) before label 1
  (8 points); the returned list has the cluster of 8 first.
\<close>

lemma two_groups_clusters:
  "detect_clusters split_at_500 remdups two_groups =
     Inr [\<lparr>cluster_id = 1, cluster_size = 8, cluster_center = (5204 / 8, 1 / 2),
           cluster_bbox = (600, 0, 701, 1), cluster_area = 101\<rparr>,
          \<lparr>cluster_id = 0, cluster_size = 4, cluster_center = (1 / 2, 1 / 2),
           cluster_bbox = (0, 0, 1, 1), cluster_area = 1\<rparr>]"
  by (simp add: detect_clusters_def encounter_clusters_def two_groups_def split_at_500_def
      MIN_CLUSTER_SIZE_def make_cluster_def np_mean_def py_int_def sort_size_reverse_def)

theorem detect_clusters_sorted_stable_witness:
  "\<exists>cs. detect_clusters split_at_500 remdups two_groups = Inr cs \<and> size_descending cs
     \<and> map cluster_id cs = [1, 0]"
  using detect_clusters_sorted_stable [OF two_groups_clusters] two_groups_clusters by simp

text \<open>
  \<open>detect_clusters\<close> returns a list whenever the labelling has one label for each center
  and the loop runs over labels that occur in it, as it does for scikit-learn's DBSCAN and
  Python's \<^verbatim>\<open>set\<close>.
\<close>

lemma np_min_nonempty: "xs \<noteq> [] \<Longrightarrow> \<exists>m. np_min xs = Inr m"
  by (cases xs) simp_all

lemma np_max_nonempty: "xs \<noteq> [] \<Longrightarrow> \<exists>m. np_max xs = Inr m"
  by (cases xs) simp_all

lemma make_cluster_nonempty:
  assumes "pts \<noteq> []"
  shows "\<exists>c. make_cluster label pts = Inr c"
proof -
  from assms have "map fst pts \<noteq> []" and "map snd pts \<noteq> []" by simp_all
  then obtain a b c d where "np_min (map fst pts) = Inr a" "np_min (map snd pts) = Inr b"
    "np_max (map fst pts) = Inr c" "np_max (map snd pts) = Inr d"
    using np_min_nonempty np_max_nonempty by meson
  then show ?thesis by (simp add: make_cluster_def)
qed

lemma label_points_nonempty:
  assumes "length labels = length centers" and "label \<in> set labels"
  shows "map fst (filter (\<lambda>pl. snd pl = label) (zip centers labels)) \<noteq> []"
proof -
  from assms(2) obtain i where i: "i < length labels" "labels ! i = label"
    by (auto simp: in_set_conv_nth)
  then have "(centers ! i, label) \<in> set (zip centers labels)"
    using assms(1) by (auto simp: in_set_zip intro!: exI [of _ i])
  then have "(centers ! i, label) \<in> set (filter (\<lambda>pl. snd pl = label) (zip centers labels))"
    by simp
  then show ?thesis by (metis empty_iff list.map_disc_iff list.set(1))
qed

lemma build_clusters_returns:
  assumes "length labels = length centers" and "set unique \<subseteq> set labels"
  shows "\<exists>cs. build_clusters centers labels unique acc = Inr cs"
  using assms(2)
proof (induction unique arbitrary: acc)
  case Nil
  show ?case by simp
next
  case (Cons label rest)
  then have mem: "label \<in> set labels" and sub: "set rest \<subseteq> set labels" by simp_all
  obtain c where c: "make_cluster label
      (map fst (filter (\<lambda>pl. snd pl = label) (zip centers labels))) = Inr c"
    using make_cluster_nonempty [OF label_points_nonempty [OF assms(1) mem]] by blast
  show ?case using Cons.IH [OF sub] by (simp add: c)
qed

lemma detect_clusters_returns:
  assumes "length (dbscan CLUSTERING_EPS MIN_CLUSTER_SIZE centers) = length centers"
    and "set (set_iter (dbscan CLUSTERING_EPS MIN_CLUSTER_SIZE centers))
           \<subseteq> set (dbscan CLUSTERING_EPS MIN_CLUSTER_SIZE centers)"
  shows "\<exists>cs. detect_clusters dbscan set_iter centers = Inr cs"
proof (cases "length centers < MIN_CLUSTER_SIZE")
  case True
  then show ?thesis by (simp add: detect_clusters_few)
next
  case False
  obtain es where "build_clusters centers (dbscan CLUSTERING_EPS MIN_CLUSTER_SIZE centers)
      (set_iter (dbscan CLUSTERING_EPS MIN_CLUSTER_SIZE centers)) [] = Inr es"
    using build_clusters_returns [OF assms] by blast
  then show ?thesis
    using False assms(1) by (simp add: detect_clusters_def encounter_clusters_def Let_def)
qed

subsection \<open>The analysis of one frame\<close>

lemma analyze_empty:
  "analyze dbscan set_iter self [] timestamp time_delta =
     Inr (\<lparr>cm_total_count = 0, cm_density_score = 0, cm_risk_level = LOW,
           cm_risk_score = 0, cm_anomaly_type = NORMAL, cm_high_density_zones = [],
           cm_clusters = [], cm_avg_velocity = 0, cm_frame_area = frame_area self,
           cm_timestamp = timestamp\<rparr>,
          self\<lparr>previous_positions := Some []\<rparr>)"
  by (simp add: analyze_def detect_high_density_zones_def detect_clusters_few
      MIN_CLUSTER_SIZE_def calculate_movement_empty density_score_no_people
      classify_risk_all_zero py_round_zero)

text \<open>
  Claim C5. For every analyzer state, timestamp and time delta, \<open>analyze\<close> on the empty
  list of detections raises no error and returns the metrics with density score 0, no
  zones, no clusters, average velocity 0, risk level \<open>LOW\<close> and anomaly type \<open>NORMAL\<close>.
\<close>

theorem analyze_empty_detections:
  "analyze dbscan set_iter self [] timestamp time_delta =
     Inr (\<lparr>cm_total_count = 0, cm_density_score = 0, cm_risk_level = LOW,
           cm_risk_score = 0, cm_anomaly_type = NORMAL, cm_high_density_zones = [],
           cm_clusters = [], cm_avg_velocity = 0, cm_frame_area = frame_area self,
           cm_timestamp = timestamp\<rparr>,
          self\<lparr>previous_positions := Some []\<rparr>)"
  by (rule analyze_empty)

lemma scenario_density: "calculate_density_score (CrowdAnalyzer_init (720, 1280)) 5 = 271 / 100"
  by (simp add: calculate_density_score_def CrowdAnalyzer_init_def py_round_def
      round_half_even_def Let_def)

lemma scenario_risk: "classify_risk 5 (271 / 100) [] 0 = (LOW, 158 / 100, NORMAL)"
  by (simp add: classify_risk_unfold risk_factor_sum_def level_of_score_def py_round_def
      round_half_even_def ANOMALY_MOVEMENT_THRESHOLD_def)

lemma scenario_centers:
  "length scenario_detections = 5"
  "map det_center scenario_detections =
     [(100, 100), (120, 105), (105, 120), (600, 400), (605, 405)]"
  by (simp_all add: scenario_detections_def)

lemma scenario_clusters:
  "detect_clusters dbscan set_iter
     [(100, 100), (120, 105), (105, 120), (600, 400), (605, 405)] = Inr []"
  by (rule detect_clusters_few) (simp add: MIN_CLUSTER_SIZE_def)

text \<open>
  Claim C6. On a fresh analyzer for frames of 720 by 1280 pixels, the first call of
  \<open>analyze\<close> on the five detections of the scenario returns density score 2.71, no zones,
  no clusters, average velocity 0, risk score 1.58, risk level \<open>LOW\<close> and anomaly type
  \<open>NORMAL\<close>, whatever DBSCAN, the timestamp and the time delta are.
\<close>

theorem analyze_scenario:
  "analyze dbscan set_iter (CrowdAnalyzer_init (720, 1280)) scenario_detections
     timestamp time_delta =
     Inr (\<lparr>cm_total_count = 5, cm_density_score = 271 / 100, cm_risk_level = LOW,
           cm_risk_score = 158 / 100, cm_anomaly_type = NORMAL, cm_high_density_zones = [],
           cm_clusters = [], cm_avg_velocity = 0, cm_frame_area = 921600,
           cm_timestamp = timestamp\<rparr>,
          (CrowdAnalyzer_init (720, 1280))\<lparr>previous_positions :=
             Some [(100, 100), (120, 105), (105, 120), (600, 400), (605, 405)]\<rparr>)"
proof -
  have fresh: "previous_positions (CrowdAnalyzer_init (720, 1280)) = None"
    and area: "frame_area (CrowdAnalyzer_init (720, 1280)) = 921600"
    by (simp_all add: CrowdAnalyzer_init_def)
  show ?thesis
    by (simp add: analyze_def scenario_centers scenario_zones scenario_density
        scenario_risk scenario_clusters calculate_movement_first [OF fresh] area py_round_zero)
qed

text \<open>
  Claim C9. The claim has \<open>analyze\<close> complete without an exception for every frame size,
  also one smaller than the grid size, and every list of detections with numeric centers.
  On a frame of 40 by 40 pixels (grid size 50) one detection centered at \<open>(10, 10)\<close> makes
  \<open>detect_high_density_zones\<close> index an empty grid, and \<open>analyze\<close> raises \<^verbatim>\<open>IndexError\<close>.
\<close>

theorem analyze_small_frame_raises:
  "analyze dbscan set_iter (CrowdAnalyzer_init (40, 40)) [\<lparr>det_center = (10, 10)\<rparr>]
     timestamp time_delta = Inl IndexError"
  by (simp add: analyze_def zones_small_frame_raises)

text \<open>
  The level \<open>LOW\<close> with the risk score 25 is what \<open>analyze\<close> returns for two detections
  on a fresh analyzer for frames of 109 by 148 pixels.
\<close>

lemma small_frame_density:
  "calculate_density_score (CrowdAnalyzer_init (109, 148)) 2 = 6199 / 100"
  by (simp add: calculate_density_score_def CrowdAnalyzer_init_def py_round_def
      round_half_even_def Let_def)

lemma small_frame_zones:
  "detect_high_density_zones (CrowdAnalyzer_init (109, 148)) [(10, 10), (100, 100)] = Inr []"
  by code_simp

lemma analyze_low_with_score_25:
  "analyze dbscan set_iter (CrowdAnalyzer_init (109, 148))
     [\<lparr>det_center = (10, 10)\<rparr>, \<lparr>det_center = (100, 100)\<rparr>] timestamp time_delta =
     Inr (\<lparr>cm_total_count = 2, cm_density_score = 6199 / 100, cm_risk_level = LOW,
           cm_risk_score = 25, cm_anomaly_type = NORMAL, cm_high_density_zones = [],
           cm_clusters = [], cm_avg_velocity = 0, cm_frame_area = 16132,
           cm_timestamp = timestamp\<rparr>,
          (CrowdAnalyzer_init (109, 148))\<lparr>previous_positions :=
             Some [(10, 10), (100, 100)]\<rparr>)"
proof -
  have fresh: "previous_positions (CrowdAnalyzer_init (109, 148)) = None"
    and area: "frame_area (CrowdAnalyzer_init (109, 148)) = 16132"
    by (simp_all add: CrowdAnalyzer_init_def)
  have few: "detect_clusters dbscan set_iter [(10, 10), (100, 100)] = Inr []"
    by (rule detect_clusters_few) (simp add: MIN_CLUSTER_SIZE_def)
  have r: "classify_risk 2 (6199 / 100) [] 0 = (LOW, 25, NORMAL)"
    by (simp add: classify_risk_unfold risk_factor_sum_def level_of_score_def py_round_def
        round_half_even_def ANOMALY_MOVEMENT_THRESHOLD_def)
  have two: "Suc (Suc 0) = 2" by simp
  show ?thesis
    by (simp add: analyze_def small_frame_zones small_frame_density two r few
        calculate_movement_first [OF fresh] area py_round_zero)
qed

text \<open>What \<open>analyze\<close> returns is assembled from the results of the four components.\<close>

lemma analyze_components:
  assumes "analyze dbscan set_iter self dets ts td = Inr (m, self')"
  shows "\<exists>v. calculate_movement self (map det_center dets) td = Inr (v, self')
    \<and> cm_avg_velocity m = py_round v 2
    \<and> cm_density_score m = calculate_density_score self (length dets)
    \<and> cm_risk_score m =
        fst (snd (classify_risk (length dets) (calculate_density_score self (length dets))
          (cm_high_density_zones m) v))"
proof -
  have c: "(if length dets > 0 then map det_center dets else []) = map det_center dets"
    by simp
  show ?thesis
    using assms unfolding analyze_def Let_def c
    by (auto split: sum.splits prod.splits)
qed

text \<open>
  Claim C10. After a call of \<open>analyze\<close> with no detections the stored previous positions
  are the empty list; the movement estimate of the next call is then 0 for every list of
  positions and every time delta, and so is the average velocity in the metrics that the
  next call of \<open>analyze\<close> returns.
\<close>

theorem empty_frame_resets_motion:
  assumes first: "analyze dbscan set_iter self [] ts td = Inr (m, self')"
    and second: "analyze dbscan set_iter self' dets ts' td' = Inr (m', self'')"
  shows "previous_positions self' = Some [] \<and> cm_avg_velocity m' = 0 \<and>
    calculate_movement self' (map det_center dets) td' =
      Inr (0, self'\<lparr>previous_positions := Some (map det_center dets)\<rparr>)"
proof -
  have s: "self' = self\<lparr>previous_positions := Some []\<rparr>"
    using first by (simp add: analyze_empty)
  then have p: "previous_positions self' = Some []" by simp
  have mv: "calculate_movement self' (map det_center dets) td' =
      Inr (0, self'\<lparr>previous_positions := Some (map det_center dets)\<rparr>)"
    by (rule calculate_movement_after_empty [OF p])
  from analyze_components [OF second] obtain v where
    "calculate_movement self' (map det_center dets) td' = Inr (v, self'')"
    and "cm_avg_velocity m' = py_round v 2" by blast
  with mv have "cm_avg_velocity m' = 0" by (simp add: py_round_zero)
  with p mv show ?thesis by simp
qed

text \<open>
  A fresh analyzer, a frame with no detections, then the five detections of the scenario:
  both calls return, and the second reports velocity 0.
\<close>

theorem empty_frame_resets_motion_witness:
  "\<exists>m self' m' self''.
     analyze split_at_500 remdups (CrowdAnalyzer_init (720, 1280)) [] ''t0'' (1 / 3) =
       Inr (m, self') \<and>
     analyze split_at_500 remdups self' scenario_detections ''t1'' (1 / 3) =
       Inr (m', self'') \<and>
     previous_positions self' = Some [] \<and> cm_avg_velocity m' = 0"
proof -
  let ?A = "CrowdAnalyzer_init (720, 1280)"
  let ?B = "?A\<lparr>previous_positions := Some []\<rparr>"
  obtain m where first: "analyze split_at_500 remdups ?A [] ''t0'' (1 / 3) = Inr (m, ?B)"
    by (simp add: analyze_empty)
  have p: "previous_positions ?B = Some []" by simp
  obtain m' self'' where second:
    "analyze split_at_500 remdups ?B scenario_detections ''t1'' (1 / 3) = Inr (m', self'')"
    by (simp add: analyze_def scenario_centers zones_ignore_history density_ignores_history
        scenario_zones scenario_density scenario_risk scenario_clusters
        calculate_movement_after_empty [OF p] py_round_zero)
  from empty_frame_resets_motion [OF first second] first second show ?thesis by blast
qed

subsection \<open>Range of the scores\<close>

text \<open>
  Claim C7. For every analyzer state, every detection count, every list of zones and every
  velocity, the density score returned by \<open>calculate_density_score\<close> and the risk score
  returned by \<open>classify_risk\<close> on that density score both lie in \<open>[0, 100]\<close>. A velocity
  is a distance over a positive time, so \<open>v \<ge> 0\<close>: \<open>calculate_movement\<close>, whose result is
  the only velocity the code passes to \<open>classify_risk\<close>, returns no other
  (lemma \<open>calculate_movement_nonneg\<close>).
\<close>

theorem scores_in_range:
  assumes "0 \<le> v"
  shows "0 \<le> calculate_density_score self n \<and> calculate_density_score self n \<le> 100
     \<and> 0 \<le> fst (snd (classify_risk n (calculate_density_score self n) zs v))
     \<and> fst (snd (classify_risk n (calculate_density_score self n) zs v)) \<le> 100"
proof -
  have d: "0 \<le> calculate_density_score self n" "calculate_density_score self n \<le> 100"
    using density_range by blast+
  show ?thesis
    using d risk_score_range [OF d(1) assms] by blast
qed

text \<open>The claim on the scenario: 5 detections, no zones, velocity 0.\<close>

theorem scores_in_range_witness:
  "calculate_density_score (CrowdAnalyzer_init (720, 1280)) 5 = 271 / 100 \<and>
   0 \<le> fst (snd (classify_risk 5
      (calculate_density_score (CrowdAnalyzer_init (720, 1280)) 5) [] 0)) \<and>
   fst (snd (classify_risk 5
      (calculate_density_score (CrowdAnalyzer_init (720, 1280)) 5) [] 0)) \<le> 100"
  using scores_in_range [of 0 "CrowdAnalyzer_init (720, 1280)" 5 "[]"]
  by (simp add: scenario_density)

text \<open>
  The velocity that \<open>analyze\<close> passes to \<open>classify_risk\<close> is never negative, so both
  scores of every metrics record that \<open>analyze\<close> returns are in range.
\<close>

lemma analyze_scores_in_range:
  assumes "analyze dbscan set_iter self dets ts td = Inr (m, self')"
  shows "0 \<le> cm_density_score m \<and> cm_density_score m \<le> 100 \<and>
    0 \<le> cm_risk_score m \<and> cm_risk_score m \<le> 100"
proof -
  let ?d = "calculate_density_score self (length dets)"
  from analyze_components [OF assms] obtain v where
    v: "calculate_movement self (map det_center dets) td = Inr (v, self')"
    and d: "cm_density_score m = ?d"
    and r: "cm_risk_score m =
      fst (snd (classify_risk (length dets) ?d (cm_high_density_zones m) v))"
    by blast
  have "0 \<le> v" by (rule calculate_movement_nonneg [OF v])
  then show ?thesis
    unfolding d r using density_range risk_score_range by blast
qed

end
